theory Spec2Isabelle
  imports Main "HOL-Library.Word"
begin

section \<open>The WCKB type script (c/wckb.c)\<close>

text \<open>
  The script validates one transaction: it scans the input cells, scans the output
  cells, aligns the recorded amounts to the block number of the first input of its own
  script group and checks two equations. Everything it reads comes from the host
  through syscalls; the model takes the answers of those syscalls from a record
  \<open>env\<close>.
\<close>

subsection \<open>Machine types and constants\<close>

type_synonym u8 = "8 word"
type_synonym u64 = "64 word"
type_synonym u128 = "128 word"
type_synonym bytes = "u8 list"

abbreviation (input) BLAKE2B_BLOCK_SIZE :: nat where "BLAKE2B_BLOCK_SIZE \<equiv> 32"
abbreviation (input) BLOCK_NUM_LEN :: nat where "BLOCK_NUM_LEN \<equiv> 8"
abbreviation (input) CKB_LEN :: nat where "CKB_LEN \<equiv> 8"
abbreviation (input) UDT_LEN :: nat where "UDT_LEN \<equiv> 16"
abbreviation (input) MAX_SWAPS :: nat where "MAX_SWAPS \<equiv> 256"

text \<open>
  Return codes. The numbers behind the names are defined in headers that are not part
  of wckb.c; the model keeps the names, pairwise distinct. \<open>CKB_OTHER\<close> stands for any
  further code a syscall or a helper of dao_utils.h may answer.
\<close>

datatype ret_code =
    CKB_SUCCESS
  | CKB_INDEX_OUT_OF_BOUND
  | CKB_ITEM_MISSING
  | CKB_OTHER int
  | ERROR_SYSCALL
  | ERROR_ENCODING
  | ERROR_TOO_MANY_SWAPS
  | ERROR_ALIGN
  | ERROR_OUTPUT_ALIGN
  | ERROR_INCORRECT_OUTPUT_WCKB
  | ERROR_INCORRECT_UNINIT_OUTPUT_WCKB

text \<open>
  What a run ends with: the exit code of \<open>main\<close>, or undefined behaviour of the C
  program (a store past the end of an array, a load through a pointer that has left
  its object). The model stops at the first such access.
\<close>

datatype outcome = Exit ret_code | Undefined_behaviour

datatype source_t =
    CKB_SOURCE_INPUT
  | CKB_SOURCE_OUTPUT
  | CKB_SOURCE_HEADER_DEP
  | CKB_SOURCE_GROUP_INPUT

datatype cell_field =
    CKB_CELL_FIELD_CAPACITY
  | CKB_CELL_FIELD_OCCUPIED_CAPACITY
  | CKB_CELL_FIELD_LOCK_HASH
  | CKB_CELL_FIELD_TYPE_HASH

definition NERVOS_DAO_TYPE_HASH :: bytes where
  "NERVOS_DAO_TYPE_HASH = replicate 32 0"

subsection \<open>Data model\<close>

text \<open>
  \<open>dao_header_data_t\<close> is declared in dao_utils.h; wckb.c reads its \<open>block_number\<close>
  only and hands the rest to the accrual function.
\<close>

record dao_header_data_t =
  block_number :: u64
  dao :: bytes

record SwapInfo =
  lock_hash :: bytes
  amount :: u128

record TokenInfo =
  block_number :: u64
  amount :: u128

text \<open>
  One cell as the syscalls show it: for every field and for the data, the return code
  and the bytes the host has for it (the length it reports is the length of the list).
\<close>

record cell =
  cell_capacity :: "ret_code \<times> bytes"
  cell_occupied_capacity :: "ret_code \<times> bytes"
  cell_lock_hash :: "ret_code \<times> bytes"
  cell_type_hash :: "ret_code \<times> bytes"
  cell_data :: "ret_code \<times> bytes"

text \<open>
  The host. \<open>dao_input_capacity\<close> is \<open>calculate_dao_input_capacity\<close> of dao_utils.h:
  its last argument is the value its out-parameter holds before the call, its result
  the return code and the value the out-parameter holds after it. \<open>stack_buf i\<close> is what
  the 24-byte local \<open>buf\<close> of \<open>fetch_inputs\<close> holds before the data of input \<open>i\<close> is
  loaded into it, and \<open>stack_calculated_capacity\<close> what the local
  \<open>calculated_capacity\<close> of \<open>main\<close> holds before anything is stored in it: C leaves both
  indeterminate.
\<close>

record env =
  script_hash :: "ret_code \<times> bytes"
  cells :: "source_t \<Rightarrow> cell list"
  dao_header :: "nat \<Rightarrow> source_t \<Rightarrow> ret_code \<times> dao_header_data_t"
  deposit_header_index :: "nat \<Rightarrow> ret_code \<times> nat"
  dao_input_capacity ::
    "u64 \<Rightarrow> dao_header_data_t \<Rightarrow> dao_header_data_t \<Rightarrow> u64 \<Rightarrow> u64 \<Rightarrow> u64 \<Rightarrow> ret_code \<times> u64"
  stack_buf :: "nat \<Rightarrow> bytes"
  stack_calculated_capacity :: u64

subsection \<open>Syscalls and helpers the script calls\<close>

definition ckb_load_script_hash :: "env \<Rightarrow> ret_code \<times> bytes" where
  "ckb_load_script_hash e = script_hash e"

text \<open>
  Loading a field of the cell at \<open>index\<close> of \<open>source\<close>: past the last cell the answer is
  \<open>CKB_INDEX_OUT_OF_BOUND\<close>, otherwise what the host has for that cell.
\<close>

definition ckb_checked_load_cell_by_field ::
    "env \<Rightarrow> nat \<Rightarrow> source_t \<Rightarrow> cell_field \<Rightarrow> ret_code \<times> bytes" where
  "ckb_checked_load_cell_by_field e index source field =
     (if index < length (cells e source) then
        (case field of
           CKB_CELL_FIELD_CAPACITY \<Rightarrow> cell_capacity (cells e source ! index)
         | CKB_CELL_FIELD_OCCUPIED_CAPACITY \<Rightarrow> cell_occupied_capacity (cells e source ! index)
         | CKB_CELL_FIELD_LOCK_HASH \<Rightarrow> cell_lock_hash (cells e source ! index)
         | CKB_CELL_FIELD_TYPE_HASH \<Rightarrow> cell_type_hash (cells e source ! index))
      else (CKB_INDEX_OUT_OF_BOUND, []))"

definition ckb_load_cell_data :: "env \<Rightarrow> nat \<Rightarrow> source_t \<Rightarrow> ret_code \<times> bytes" where
  "ckb_load_cell_data e index source =
     (if index < length (cells e source) then cell_data (cells e source ! index)
      else (CKB_INDEX_OUT_OF_BOUND, []))"

definition load_dao_header_data :: "env \<Rightarrow> nat \<Rightarrow> source_t \<Rightarrow> ret_code \<times> dao_header_data_t" where
  "load_dao_header_data e index source = dao_header e index source"

definition extract_deposit_header_index :: "env \<Rightarrow> nat \<Rightarrow> ret_code \<times> nat" where
  "extract_deposit_header_index e i = deposit_header_index e i"

definition calculate_dao_input_capacity ::
    "env \<Rightarrow> u64 \<Rightarrow> dao_header_data_t \<Rightarrow> dao_header_data_t \<Rightarrow> u64 \<Rightarrow> u64 \<Rightarrow> u64 \<Rightarrow> ret_code \<times> u64" where
  "calculate_dao_input_capacity e occupied_capacity deposit_data target_data
       deposited_block_number original_capacity calculated_capacity =
     dao_input_capacity e occupied_capacity deposit_data target_data
       deposited_block_number original_capacity calculated_capacity"

text \<open>\<open>memcmp (a, b, n) == 0\<close>.\<close>

definition memcmp_eq :: "bytes \<Rightarrow> bytes \<Rightarrow> nat \<Rightarrow> bool" where
  "memcmp_eq a b n \<longleftrightarrow> take n a = take n b"

text \<open>Little-endian loads: \<open>*(uint64_t *)p\<close> and \<open>*(uint128_t *)p\<close>.\<close>

definition le_nat :: "bytes \<Rightarrow> nat" where
  "le_nat bs = foldr (\<lambda>b n. unat b + 256 * n) bs 0"

definition load_u64 :: "bytes \<Rightarrow> u64" where
  "load_u64 p = of_nat (le_nat (take 8 p))"

definition load_u128 :: "bytes \<Rightarrow> u128" where
  "load_u128 p = of_nat (le_nat (take 16 p))"

subsection \<open>Recognising NervosDAO cells\<close>

definition is_dao_deposit_cell :: "bytes \<Rightarrow> bytes \<Rightarrow> nat \<Rightarrow> bool" where
  "is_dao_deposit_cell cell_type_hash' data data_len \<longleftrightarrow>
     memcmp_eq cell_type_hash' NERVOS_DAO_TYPE_HASH BLAKE2B_BLOCK_SIZE \<and>
     data_len = BLOCK_NUM_LEN \<and>
     memcmp_eq data (replicate 8 0) BLOCK_NUM_LEN"

definition is_dao_withdraw1_cell :: "bytes \<Rightarrow> bytes \<Rightarrow> nat \<Rightarrow> bool" where
  "is_dao_withdraw1_cell cell_type_hash' data data_len \<longleftrightarrow>
     memcmp_eq cell_type_hash' NERVOS_DAO_TYPE_HASH BLAKE2B_BLOCK_SIZE \<and>
     data_len = BLOCK_NUM_LEN \<and>
     \<not> memcmp_eq data (replicate 8 0) BLOCK_NUM_LEN"

subsection \<open>Scanning the inputs\<close>

text \<open>
  One turn of a scanning loop either goes on with the next index (\<open>i++; continue\<close> or
  the end of the body), leaves the loop (\<open>break\<close>) or returns from the function.
\<close>

datatype 'a step = Continue 'a | Break 'a | Return outcome

text \<open>
  The body of the \<open>while (1)\<close> of \<open>fetch_inputs\<close> at index \<open>i\<close>. The two counters are the
  lengths of the two lists. Neither append is guarded: with 256 entries recorded the
  store goes past the end of the caller's array.
\<close>

definition fetch_inputs_body ::
    "env \<Rightarrow> bytes \<Rightarrow> nat \<Rightarrow> TokenInfo list \<times> TokenInfo list \<Rightarrow> (TokenInfo list \<times> TokenInfo list) step" where
  "fetch_inputs_body e type_hash i st =
     (case st of (withdraw_dao_infos, input_wckb_infos) \<Rightarrow>
      case ckb_checked_load_cell_by_field e i CKB_SOURCE_INPUT CKB_CELL_FIELD_TYPE_HASH of
        (ret, input_type_hash) \<Rightarrow>
      if ret = CKB_INDEX_OUT_OF_BOUND then Break st
      else if ret = CKB_ITEM_MISSING then Continue st
      else if ret \<noteq> CKB_SUCCESS \<or> length input_type_hash \<noteq> BLAKE2B_BLOCK_SIZE
        then Return (Exit ERROR_ENCODING)
      else
      case ckb_load_cell_data e i CKB_SOURCE_INPUT of (ret, data) \<Rightarrow>
      let len = length data;
          buf = take (UDT_LEN + BLOCK_NUM_LEN) data @ drop len (stack_buf e i)
      in
      if ret = CKB_ITEM_MISSING then Continue st
      else if ret \<noteq> CKB_SUCCESS \<or> len > UDT_LEN + BLOCK_NUM_LEN
        then Return (Exit ERROR_ENCODING)
      else if is_dao_withdraw1_cell input_type_hash buf len then
        let deposited_block_number = load_u64 buf in
        case extract_deposit_header_index e i of (ret, deposit_index) \<Rightarrow>
        if ret \<noteq> CKB_SUCCESS then Return (Exit ret)
        else
        let deposit_data = snd (load_dao_header_data e deposit_index CKB_SOURCE_HEADER_DEP);
            withdraw_data = snd (load_dao_header_data e i CKB_SOURCE_INPUT)
        in
        case ckb_checked_load_cell_by_field e i CKB_SOURCE_INPUT
               CKB_CELL_FIELD_OCCUPIED_CAPACITY of (ret, occupied) \<Rightarrow>
        if ret \<noteq> CKB_SUCCESS \<or> length occupied \<noteq> CKB_LEN then Return (Exit ERROR_ENCODING)
        else
        case ckb_checked_load_cell_by_field e i CKB_SOURCE_INPUT
               CKB_CELL_FIELD_CAPACITY of (ret, original) \<Rightarrow>
        if ret \<noteq> CKB_SUCCESS \<or> length original \<noteq> CKB_LEN then Return (Exit ERROR_ENCODING)
        else
        let calculated_capacity =
              snd (calculate_dao_input_capacity e (load_u64 occupied) deposit_data
                     withdraw_data deposited_block_number (load_u64 original) 0)
        in
        if MAX_SWAPS \<le> length withdraw_dao_infos then Return Undefined_behaviour
        else Continue
          (withdraw_dao_infos @
             [\<lparr>TokenInfo.block_number = dao_header_data_t.block_number withdraw_data,
               TokenInfo.amount = ucast calculated_capacity\<rparr>],
           input_wckb_infos)
      else if memcmp_eq input_type_hash type_hash BLAKE2B_BLOCK_SIZE then
        if len \<noteq> UDT_LEN then Return (Exit ERROR_ENCODING)
        else
        let amount' = load_u128 buf;
            block_number' = load_u64 (drop UDT_LEN buf)
        in
        if MAX_SWAPS \<le> length input_wckb_infos then Return Undefined_behaviour
        else Continue
          (withdraw_dao_infos,
           input_wckb_infos @
             [\<lparr>TokenInfo.block_number = block_number', TokenInfo.amount = amount'\<rparr>])
      else Continue st)"

lemma fetch_inputs_body_Continue_bound:
  "fetch_inputs_body e type_hash i st = Continue st' \<Longrightarrow> i < length (cells e CKB_SOURCE_INPUT)"
  by (cases st)
    (auto simp: fetch_inputs_body_def ckb_checked_load_cell_by_field_def
          split: if_splits prod.splits)

function fetch_inputs_loop ::
    "env \<Rightarrow> bytes \<Rightarrow> nat \<Rightarrow> TokenInfo list \<times> TokenInfo list
      \<Rightarrow> outcome + TokenInfo list \<times> TokenInfo list" where
  "fetch_inputs_loop e type_hash i st =
     (case fetch_inputs_body e type_hash i st of
        Break st' \<Rightarrow> Inr st'
      | Return r \<Rightarrow> Inl r
      | Continue st' \<Rightarrow> fetch_inputs_loop e type_hash (i + 1) st')"
  by pat_completeness auto
termination
  by (relation "measure (\<lambda>(e, type_hash, i, st). length (cells e CKB_SOURCE_INPUT) - i)")
    (auto dest: fetch_inputs_body_Continue_bound)

declare fetch_inputs_loop.simps [simp del]

definition fetch_inputs :: "env \<Rightarrow> bytes \<Rightarrow> outcome + TokenInfo list \<times> TokenInfo list" where
  "fetch_inputs e type_hash = fetch_inputs_loop e type_hash 0 ([], [])"

subsection \<open>Linear lookups\<close>

text \<open>The index of the first element that satisfies \<open>P\<close>; \<open>None\<close> is the C code's \<open>-1\<close>.\<close>

primrec first_index :: "('a \<Rightarrow> bool) \<Rightarrow> 'a list \<Rightarrow> nat option" where
  "first_index P [] = None"
| "first_index P (x # xs) = (if P x then Some 0 else map_option Suc (first_index P xs))"

definition find_swap_by_lock_hash :: "SwapInfo list \<Rightarrow> nat \<Rightarrow> bytes \<Rightarrow> nat option" where
  "find_swap_by_lock_hash swap_infos swap_infos_cnt lock_hash' =
     first_index (\<lambda>s. memcmp_eq (SwapInfo.lock_hash s) lock_hash' BLAKE2B_BLOCK_SIZE)
       (take swap_infos_cnt swap_infos)"

definition find_token_by_block_number :: "TokenInfo list \<Rightarrow> nat \<Rightarrow> u64 \<Rightarrow> nat option" where
  "find_token_by_block_number token_infos token_infos_cnt block_number' =
     first_index (\<lambda>t. TokenInfo.block_number t = block_number')
       (take token_infos_cnt token_infos)"

subsection \<open>Scanning the outputs\<close>

text \<open>
  The state of \<open>fetch_outputs\<close>. The uninitialized and the initialized bucket are lists
  whose length is the counter. For the deposit bucket the function runs
  \<open>deposited_dao_cnt++\<close> on the pointer parameter instead of the counter it points to:
  \<open>deposited_dao_cnt\<close> is the caller's counter, \<open>deposited_dao_cnt_ptr\<close> the number of
  \<open>int\<close>s the parameter has moved away from it, and \<open>deposited_dao\<close> the slots of the
  array stored so far.
\<close>

record outputs_state =
  deposited_dao :: "SwapInfo list"
  deposited_dao_cnt :: nat
  deposited_dao_cnt_ptr :: nat
  uninitialized_wckb :: "SwapInfo list"
  initialized_wckb :: "TokenInfo list"

text \<open>\<open>a[i] = v\<close> on the stored prefix of an array, for \<open>i\<close> up to its length.\<close>

definition array_store :: "'a list \<Rightarrow> nat \<Rightarrow> 'a \<Rightarrow> 'a list" where
  "array_store a i v = (if i < length a then a[i := v] else a @ [v])"

definition fetch_outputs_body ::
    "env \<Rightarrow> bytes \<Rightarrow> u64 \<Rightarrow> nat \<Rightarrow> outputs_state \<Rightarrow> outputs_state step" where
  "fetch_outputs_body e wckb_type_hash align_block_number i st =
     (case ckb_checked_load_cell_by_field e i CKB_SOURCE_OUTPUT CKB_CELL_FIELD_TYPE_HASH of
        (ret, output_type_hash) \<Rightarrow>
      if ret = CKB_INDEX_OUT_OF_BOUND then Break st
      else if ret = CKB_ITEM_MISSING then Continue st
      else if ret \<noteq> CKB_SUCCESS \<or> length output_type_hash \<noteq> BLAKE2B_BLOCK_SIZE
        then Return (Exit ERROR_ENCODING)
      else
      case ckb_load_cell_data e i CKB_SOURCE_OUTPUT of (ret, buf) \<Rightarrow>
      let len = length buf in
      if ret = CKB_ITEM_MISSING then Continue st
      else if ret \<noteq> CKB_SUCCESS \<or> len > UDT_LEN + BLOCK_NUM_LEN
        then Return (Exit ERROR_ENCODING)
      else if is_dao_deposit_cell output_type_hash buf len then
        case ckb_checked_load_cell_by_field e i CKB_SOURCE_OUTPUT CKB_CELL_FIELD_LOCK_HASH of
          (ret, lock_hash') \<Rightarrow>
        if ret = CKB_INDEX_OUT_OF_BOUND then Break st
        else if ret \<noteq> CKB_SUCCESS \<or> length lock_hash' \<noteq> BLAKE2B_BLOCK_SIZE
          then Return (Exit ERROR_SYSCALL)
        else
        case ckb_checked_load_cell_by_field e i CKB_SOURCE_OUTPUT CKB_CELL_FIELD_CAPACITY of
          (ret, capacity) \<Rightarrow>
        if ret \<noteq> CKB_SUCCESS \<or> length capacity \<noteq> CKB_LEN then Return (Exit ERROR_SYSCALL)
        else
        let amount' = load_u64 capacity in
        if deposited_dao_cnt_ptr st \<noteq> 0 then Return Undefined_behaviour
        else
        (case find_swap_by_lock_hash (deposited_dao st) (deposited_dao_cnt st) lock_hash' of
           Some found \<Rightarrow>
             Continue (st\<lparr>deposited_dao := (deposited_dao st)
               [found := (deposited_dao st ! found)
                  \<lparr>SwapInfo.amount := SwapInfo.amount (deposited_dao st ! found) + ucast amount'\<rparr>]\<rparr>)
         | None \<Rightarrow>
             if MAX_SWAPS \<le> deposited_dao_cnt st then Return (Exit ERROR_TOO_MANY_SWAPS)
             else
             let new_i = deposited_dao_cnt st in
             Continue (st\<lparr>deposited_dao_cnt_ptr := deposited_dao_cnt_ptr st + 1,
               deposited_dao := array_store (deposited_dao st) new_i
                 \<lparr>SwapInfo.lock_hash = take BLAKE2B_BLOCK_SIZE lock_hash',
                   SwapInfo.amount = ucast amount'\<rparr>\<rparr>))
      else if memcmp_eq output_type_hash wckb_type_hash BLAKE2B_BLOCK_SIZE then
        if len \<noteq> UDT_LEN + BLOCK_NUM_LEN then Return (Exit ERROR_ENCODING)
        else
        let amount' = load_u128 buf;
            block_number' = load_u64 (drop UDT_LEN buf)
        in
        if block_number' = 0 then
          case ckb_checked_load_cell_by_field e i CKB_SOURCE_OUTPUT CKB_CELL_FIELD_LOCK_HASH of
            (ret, lock_hash') \<Rightarrow>
          if ret = CKB_INDEX_OUT_OF_BOUND then Break st
          else if ret \<noteq> CKB_SUCCESS \<or> length lock_hash' \<noteq> BLAKE2B_BLOCK_SIZE
            then Return (Exit ERROR_SYSCALL)
          else
          (case find_swap_by_lock_hash (uninitialized_wckb st)
                  (length (uninitialized_wckb st)) lock_hash' of
             Some found \<Rightarrow>
               Continue (st\<lparr>uninitialized_wckb := (uninitialized_wckb st)
                 [found := (uninitialized_wckb st ! found)
                    \<lparr>SwapInfo.amount := SwapInfo.amount (uninitialized_wckb st ! found) + amount'\<rparr>]\<rparr>)
           | None \<Rightarrow>
               if MAX_SWAPS \<le> length (uninitialized_wckb st)
                 then Return (Exit ERROR_TOO_MANY_SWAPS)
               else
               Continue (st\<lparr>uninitialized_wckb := uninitialized_wckb st @
                 [\<lparr>SwapInfo.lock_hash = take BLAKE2B_BLOCK_SIZE lock_hash',
                   SwapInfo.amount = amount'\<rparr>]\<rparr>))
        else
          if block_number' \<noteq> align_block_number then Return (Exit ERROR_OUTPUT_ALIGN)
          else
          (case find_token_by_block_number (initialized_wckb st)
                  (length (initialized_wckb st)) block_number' of
             Some found \<Rightarrow>
               Continue (st\<lparr>initialized_wckb := (initialized_wckb st)
                 [found := (initialized_wckb st ! found)
                    \<lparr>TokenInfo.amount := TokenInfo.amount (initialized_wckb st ! found) + amount'\<rparr>]\<rparr>)
           | None \<Rightarrow>
               if MAX_SWAPS \<le> length (initialized_wckb st)
                 then Return (Exit ERROR_TOO_MANY_SWAPS)
               else
               Continue (st\<lparr>initialized_wckb := initialized_wckb st @
                 [\<lparr>TokenInfo.block_number = block_number', TokenInfo.amount = amount'\<rparr>]\<rparr>))
      else Continue st)"

lemma fetch_outputs_body_Continue_bound:
  "fetch_outputs_body e wckb_type_hash align_block_number i st = Continue st'
     \<Longrightarrow> i < length (cells e CKB_SOURCE_OUTPUT)"
  unfolding fetch_outputs_body_def ckb_checked_load_cell_by_field_def
  by (simp split: if_splits prod.splits)

function fetch_outputs_loop ::
    "env \<Rightarrow> bytes \<Rightarrow> u64 \<Rightarrow> nat \<Rightarrow> outputs_state \<Rightarrow> outcome + outputs_state" where
  "fetch_outputs_loop e wckb_type_hash align_block_number i st =
     (case fetch_outputs_body e wckb_type_hash align_block_number i st of
        Break st' \<Rightarrow> Inr st'
      | Return r \<Rightarrow> Inl r
      | Continue st' \<Rightarrow> fetch_outputs_loop e wckb_type_hash align_block_number (i + 1) st')"
  by pat_completeness auto
termination
  by (relation "measure (\<lambda>(e, h, a, i, st). length (cells e CKB_SOURCE_OUTPUT) - i)")
    (auto dest: fetch_outputs_body_Continue_bound)

declare fetch_outputs_loop.simps [simp del]

definition fetch_outputs :: "env \<Rightarrow> bytes \<Rightarrow> u64 \<Rightarrow> outcome + outputs_state" where
  "fetch_outputs e wckb_type_hash align_block_number =
     fetch_outputs_loop e wckb_type_hash align_block_number 0
       \<lparr>deposited_dao = [], deposited_dao_cnt = 0, deposited_dao_cnt_ptr = 0,
        uninitialized_wckb = [], initialized_wckb = []\<rparr>"

subsection \<open>Aligning an amount to the target block\<close>

text \<open>
  \<open>align_dao\<close> returns its code and the value of \<open>*calculated_capacity\<close> after the call;
  its last argument is the value before the call. On equal block numbers the C code
  assigns to its own parameter \<open>original_capacity\<close> and stores nothing.
\<close>

definition align_dao ::
    "env \<Rightarrow> nat \<Rightarrow> source_t \<Rightarrow> dao_header_data_t \<Rightarrow> u64 \<Rightarrow> u64 \<Rightarrow> u64 \<Rightarrow> ret_code \<times> u64" where
  "align_dao e i source align_target_data deposited_block_number original_capacity
       calculated_capacity =
     (if dao_header_data_t.block_number align_target_data = deposited_block_number
        then (CKB_SUCCESS, calculated_capacity)
      else if dao_header_data_t.block_number align_target_data < deposited_block_number
        then (ERROR_ALIGN, calculated_capacity)
      else
      case ckb_checked_load_cell_by_field e i source CKB_CELL_FIELD_OCCUPIED_CAPACITY of
        (ret, occupied) \<Rightarrow>
      if ret \<noteq> CKB_SUCCESS \<or> length occupied \<noteq> CKB_LEN
        then (ERROR_ENCODING, calculated_capacity)
      else
      case load_dao_header_data e i source of (ret, deposit_data) \<Rightarrow>
      if ret \<noteq> CKB_SUCCESS then (ret, calculated_capacity)
      else
      calculate_dao_input_capacity e (load_u64 occupied) deposit_data align_target_data
        (if deposited_block_number = 0 then dao_header_data_t.block_number deposit_data
         else deposited_block_number)
        original_capacity calculated_capacity)"

text \<open>
  The three summing loops of \<open>main\<close>: \<open>i\<close> runs over the bucket and is the index
  \<open>align_dao\<close> is called with; the 128-bit amount is narrowed to the 64-bit parameter.
\<close>

function align_loop ::
    "env \<Rightarrow> source_t \<Rightarrow> dao_header_data_t \<Rightarrow> TokenInfo list \<Rightarrow> nat \<Rightarrow> u64 \<Rightarrow> u64
      \<Rightarrow> ret_code + u64 \<times> u64" where
  "align_loop e source align_target_data infos i calculated_capacity total_acc =
     (if i < length infos then
        (case align_dao e i source align_target_data (TokenInfo.block_number (infos ! i))
                (ucast (TokenInfo.amount (infos ! i))) calculated_capacity of
           (ret, calculated_capacity') \<Rightarrow>
             if ret \<noteq> CKB_SUCCESS then Inl ret
             else align_loop e source align_target_data infos (i + 1) calculated_capacity'
                    (total_acc + calculated_capacity'))
      else Inr (calculated_capacity, total_acc))"
  by pat_completeness auto
termination
  by (relation "measure (\<lambda>(e, s, t, infos, i, c, a). length infos - i)") auto

declare align_loop.simps [simp del]

subsection \<open>The two equations and \<open>main\<close>\<close>

text \<open>Equation 1, on 64-bit unsigned totals.\<close>

definition equation1 :: "u64 \<Rightarrow> u64 \<Rightarrow> u64 \<Rightarrow> bool" where
  "equation1 total_input_wckb total_withdraw_dao total_output_wckb \<longleftrightarrow>
     total_input_wckb - total_withdraw_dao = total_output_wckb"

text \<open>Equation 2: the loop over the uninitialized bucket, from its first entry.\<close>

fun equation2 :: "SwapInfo list \<Rightarrow> nat \<Rightarrow> SwapInfo list \<Rightarrow> ret_code" where
  "equation2 deposited deposited_cnt [] = CKB_SUCCESS"
| "equation2 deposited deposited_cnt (u # us) =
     (case find_swap_by_lock_hash deposited deposited_cnt (SwapInfo.lock_hash u) of
        None \<Rightarrow> ERROR_INCORRECT_UNINIT_OUTPUT_WCKB
      | Some found \<Rightarrow>
          if SwapInfo.amount u \<noteq> SwapInfo.amount (deposited ! found)
            then ERROR_INCORRECT_UNINIT_OUTPUT_WCKB
          else equation2 deposited deposited_cnt us)"

text \<open>
  \<open>main\<close> up to the three totals (lines 387 to 462): the script hash, the target
  header, both scans and the three summing loops. It yields the output buckets and
  (total_input_wckb, total_withdraw_dao, total_output_wckb).
\<close>

definition main_totals :: "env \<Rightarrow> outcome + outputs_state \<times> u64 \<times> u64 \<times> u64" where
  "main_totals e =
     (case ckb_load_script_hash e of (ret, type_hash) \<Rightarrow>
      if ret \<noteq> CKB_SUCCESS \<or> length type_hash \<noteq> BLAKE2B_BLOCK_SIZE then Inl (Exit ERROR_SYSCALL)
      else
      case load_dao_header_data e 0 CKB_SOURCE_GROUP_INPUT of (ret, align_target_data) \<Rightarrow>
      if ret \<noteq> CKB_SUCCESS then Inl (Exit ERROR_ENCODING)
      else
      case fetch_inputs e type_hash of
        Inl r \<Rightarrow> Inl r
      | Inr (withdraw_dao_infos, input_wckb_infos) \<Rightarrow>
      case fetch_outputs e type_hash (dao_header_data_t.block_number align_target_data) of
        Inl r \<Rightarrow> Inl r
      | Inr outs \<Rightarrow>
      case align_loop e CKB_SOURCE_INPUT align_target_data withdraw_dao_infos 0
             (stack_calculated_capacity e) 0 of
        Inl ret \<Rightarrow> Inl (Exit ret)
      | Inr (calculated_capacity1, total_withdraw_dao) \<Rightarrow>
      case align_loop e CKB_SOURCE_INPUT align_target_data input_wckb_infos 0
             calculated_capacity1 0 of
        Inl ret \<Rightarrow> Inl (Exit ret)
      | Inr (calculated_capacity2, total_input_wckb) \<Rightarrow>
      case align_loop e CKB_SOURCE_OUTPUT align_target_data (initialized_wckb outs) 0
             calculated_capacity2 0 of
        Inl ret \<Rightarrow> Inl (Exit ret)
      | Inr (calculated_capacity3, total_output_wckb) \<Rightarrow>
          Inr (outs, total_input_wckb, total_withdraw_dao, total_output_wckb))"

definition main :: "env \<Rightarrow> outcome" where
  "main e =
     (case main_totals e of
        Inl r \<Rightarrow> r
      | Inr (outs, total_input_wckb, total_withdraw_dao, total_output_wckb) \<Rightarrow>
          if \<not> equation1 total_input_wckb total_withdraw_dao total_output_wckb
            then Exit ERROR_INCORRECT_OUTPUT_WCKB
          else Exit (equation2 (deposited_dao outs) (deposited_dao_cnt outs)
                       (uninitialized_wckb outs)))"


section \<open>Predicates on cells and buckets\<close>




text \<open>The state \<open>fetch_outputs\<close> starts from.\<close>

definition no_outputs :: outputs_state where
  "no_outputs = \<lparr>deposited_dao = [], deposited_dao_cnt = 0, deposited_dao_cnt_ptr = 0,
        uninitialized_wckb = [], initialized_wckb = []\<rparr>"


text \<open>The initialized bucket is empty or one entry at block number \<open>a\<close>.\<close>

definition one_height :: "u64 \<Rightarrow> outputs_state \<Rightarrow> bool" where
  "one_height a s \<longleftrightarrow>
     initialized_wckb s = [] \<or>
     (\<exists>t. initialized_wckb s = [t] \<and> TokenInfo.block_number t = a)"

section \<open>Transactions used as examples\<close>

text \<open>\<open>n\<close> bytes of \<open>v\<close>, least significant first.\<close>

definition le_bytes :: "nat \<Rightarrow> nat \<Rightarrow> bytes" where
  "le_bytes n v = map (\<lambda>k. of_nat (v div 256 ^ k mod 256)) [0..<n]"

text \<open>
  A cell all of whose fields load: type hash, lock hash, capacity, occupied capacity
  and data. An untyped cell has no type script: loading its type hash answers
  \<open>CKB_ITEM_MISSING\<close>.
\<close>

definition typed_cell :: "bytes \<Rightarrow> bytes \<Rightarrow> nat \<Rightarrow> nat \<Rightarrow> bytes \<Rightarrow> cell" where
  "typed_cell th lh cap occ d =
     \<lparr>cell_capacity = (CKB_SUCCESS, le_bytes 8 cap),
      cell_occupied_capacity = (CKB_SUCCESS, le_bytes 8 occ),
      cell_lock_hash = (CKB_SUCCESS, lh),
      cell_type_hash = (CKB_SUCCESS, th),
      cell_data = (CKB_SUCCESS, d)\<rparr>"

definition untyped_cell :: "bytes \<Rightarrow> nat \<Rightarrow> nat \<Rightarrow> cell" where
  "untyped_cell lh cap occ =
     \<lparr>cell_capacity = (CKB_SUCCESS, le_bytes 8 cap),
      cell_occupied_capacity = (CKB_SUCCESS, le_bytes 8 occ),
      cell_lock_hash = (CKB_SUCCESS, lh),
      cell_type_hash = (CKB_ITEM_MISSING, []),
      cell_data = (CKB_SUCCESS, [])\<rparr>"

definition wckb_hash :: bytes where
  "wckb_hash = replicate 32 7"

definition lock_L :: bytes where
  "lock_L = replicate 32 1"

definition header_at :: "nat \<Rightarrow> ret_code \<times> dao_header_data_t" where
  "header_at n = (CKB_SUCCESS, \<lparr>dao_header_data_t.block_number = of_nat n, dao = []\<rparr>)"

text \<open>
  A host for the examples: the script hash is \<open>wckb_hash\<close>, every header loads and has
  block number \<open>hdr index source\<close>, a withdrawing input at \<open>i\<close> names header dep \<open>i\<close>,
  \<open>accrue\<close> is the accrual function, the stale bytes of \<open>buf\<close> at offset 16 read as
  the block number \<open>stale_height\<close>, and \<open>calculated_capacity\<close> starts as \<open>stale_capacity\<close>.
\<close>

definition host ::
    "cell list \<Rightarrow> cell list \<Rightarrow> (nat \<Rightarrow> source_t \<Rightarrow> nat) \<Rightarrow> (u64 \<Rightarrow> u64 \<Rightarrow> u64)
      \<Rightarrow> nat \<Rightarrow> u64 \<Rightarrow> env" where
  "host ins outs hdr accrue stale_height stale_capacity =
     \<lparr>script_hash = (CKB_SUCCESS, wckb_hash),
      cells = (\<lambda>s. case s of CKB_SOURCE_INPUT \<Rightarrow> ins | CKB_SOURCE_OUTPUT \<Rightarrow> outs | _ \<Rightarrow> []),
      dao_header = (\<lambda>i s. header_at (hdr i s)),
      deposit_header_index = (\<lambda>i. (CKB_SUCCESS, i)),
      dao_input_capacity = (\<lambda>occ dep tgt bn cap old. (CKB_SUCCESS, accrue occ cap)),
      stack_buf = (\<lambda>i. replicate 16 0 @ le_bytes 8 stale_height),
      stack_calculated_capacity = stale_capacity\<rparr>"

text \<open>
  One wrapped-token input of 1000 whose height reads as 100, one initialized output of
  5000 at height 100; the target header has block number 100.
\<close>

definition equal_height_tx :: env where
  "equal_height_tx =
     host [typed_cell wckb_hash lock_L 200 100 (le_bytes 16 1000)]
          [typed_cell wckb_hash lock_L 200 100 (le_bytes 16 5000 @ le_bytes 8 100)]
          (\<lambda>i s. 100) (\<lambda>occ cap. cap) 100 7"


text \<open>Two withdrawing NervosDAO inputs of capacity \<open>2 ^ 63\<close> each, no output.\<close>

definition sum_wrap_tx :: env where
  "sum_wrap_tx =
     host [typed_cell NERVOS_DAO_TYPE_HASH lock_L 9223372036854775808 0 (le_bytes 8 50),
           typed_cell NERVOS_DAO_TYPE_HASH lock_L 9223372036854775808 0 (le_bytes 8 50)]
          []
          (\<lambda>i s. case s of CKB_SOURCE_GROUP_INPUT \<Rightarrow> 100 | CKB_SOURCE_INPUT \<Rightarrow> 90 | _ \<Rightarrow> 50)
          (\<lambda>occ cap. cap) 0 0"


text \<open>
  Scenario B: a deposit of 500 under lock \<open>lock_L\<close> and an uninitialized wrapped-token
  output of 500 under the same lock, beside a wrapped-token input of 1000 and an
  initialized output of 1000, both at the target height 100.
\<close>

definition scenario_B_tx :: env where
  "scenario_B_tx =
     host [typed_cell wckb_hash lock_L 200 100 (le_bytes 16 1000)]
          [typed_cell NERVOS_DAO_TYPE_HASH lock_L 500 0 (le_bytes 8 0),
           typed_cell wckb_hash lock_L 200 100 (le_bytes 16 500 @ le_bytes 8 0),
           typed_cell wckb_hash lock_L 200 100 (le_bytes 16 1000 @ le_bytes 8 100)]
          (\<lambda>i s. 100) (\<lambda>occ cap. cap) 100 7"

text \<open>A wrapped-token input in the documented 24-byte form: 1000 at height 100.\<close>

definition long_payload_tx :: env where
  "long_payload_tx =
     host [typed_cell wckb_hash lock_L 200 100 (le_bytes 16 1000 @ le_bytes 8 100)] []
          (\<lambda>i s. 100) (\<lambda>occ cap. cap) 100 0"

text \<open>
  An untyped input with occupied capacity 61 at position 0, then a wrapped-token input
  of 1000 with occupied capacity 100 at position 1, its height reading 50 below the
  target 100; the accrual doubles what exceeds the occupied capacity.
\<close>

definition shifted_tx :: env where
  "shifted_tx =
     host [untyped_cell lock_L 61 61, typed_cell wckb_hash lock_L 200 100 (le_bytes 16 1000)] []
          (\<lambda>i s. case s of CKB_SOURCE_GROUP_INPUT \<Rightarrow> 100 | _ \<Rightarrow> 50)
          (\<lambda>occ cap. occ + 2 * (cap - occ)) 50 0"

text \<open>
  A withdrawing NervosDAO input of 500 (withdrawn at 90), a wrapped-token input of 1000
  whose height reads 150, above the target 100, and an initialized output at 100.
\<close>

definition backward_tx :: env where
  "backward_tx =
     host [typed_cell NERVOS_DAO_TYPE_HASH lock_L 500 0 (le_bytes 8 50),
           typed_cell wckb_hash lock_L 200 100 (le_bytes 16 1000)]
          [typed_cell wckb_hash lock_L 200 100 (le_bytes 16 1000 @ le_bytes 8 100)]
          (\<lambda>i s. case s of CKB_SOURCE_GROUP_INPUT \<Rightarrow> 100 | CKB_SOURCE_INPUT \<Rightarrow> 90 | _ \<Rightarrow> 50)
          (\<lambda>occ cap. cap) 150 0"

text \<open>
  A wrapped-token input whose height reads 150, above the target 100, beside an
  initialized output at height 90.
\<close>

definition preempted_tx :: env where
  "preempted_tx =
     host [typed_cell wckb_hash lock_L 200 100 (le_bytes 16 1000)]
          [typed_cell wckb_hash lock_L 200 100 (le_bytes 16 1000 @ le_bytes 8 90)]
          (\<lambda>i s. 100) (\<lambda>occ cap. cap) 150 0"


text \<open>Two initialized outputs, 600 and 400, at the target height 100.\<close>

definition merged_tx :: env where
  "merged_tx =
     host [typed_cell wckb_hash lock_L 200 100 (le_bytes 16 1000)]
          [typed_cell wckb_hash lock_L 200 100 (le_bytes 16 600 @ le_bytes 8 100),
           typed_cell wckb_hash lock_L 200 100 (le_bytes 16 400 @ le_bytes 8 100)]
          (\<lambda>i s. 100) (\<lambda>occ cap. cap) 100 0"

text \<open>257 wrapped-token inputs of 5 each, in the 16-byte form.\<close>

definition many_inputs_tx :: env where
  "many_inputs_tx =
     host (replicate 257 (typed_cell wckb_hash lock_L 200 100 (le_bytes 16 5))) []
          (\<lambda>i s. 100) (\<lambda>occ cap. cap) 100 0"


section \<open>Facts about the helpers\<close>

lemma length_le_bytes: "length (le_bytes n v) = n"
  by (simp add: le_bytes_def)

lemma length_wckb_hash: "length wckb_hash = 32"
  by (simp add: wckb_hash_def)

lemmas cell_loads =
  ckb_checked_load_cell_by_field_def ckb_load_cell_data_def ckb_load_script_hash_def
  load_dao_header_data_def extract_deposit_header_index_def calculate_dao_input_capacity_def

lemmas example_defs =
  host_def typed_cell_def untyped_cell_def wckb_hash_def lock_L_def header_at_def
  le_bytes_def NERVOS_DAO_TYPE_HASH_def

lemma replicate_numeral_Cons: "replicate (numeral k) x = x # replicate (pred_numeral k) x"
  by (simp add: numeral_eq_Suc)

lemmas byte_loads = load_u64_def load_u128_def le_nat_def memcmp_eq_def replicate_numeral_Cons

lemmas scan_eval =
  fetch_inputs_def fetch_outputs_def fetch_inputs_loop.simps fetch_outputs_loop.simps
  fetch_inputs_body_def fetch_outputs_body_def cell_loads example_defs
  is_dao_withdraw1_cell_def is_dao_deposit_cell_def find_swap_by_lock_hash_def
  find_token_by_block_number_def byte_loads upt_rec array_store_def Let_def no_outputs_def

lemma host_script_hash:
  "ckb_load_script_hash (host ins outs hdr accrue sh sc) = (CKB_SUCCESS, wckb_hash)"
  by (simp add: ckb_load_script_hash_def host_def)

lemma host_group_header:
  "load_dao_header_data (host ins outs hdr accrue sh sc) 0 CKB_SOURCE_GROUP_INPUT =
     (CKB_SUCCESS,
      \<lparr>dao_header_data_t.block_number = of_nat (hdr 0 CKB_SOURCE_GROUP_INPUT), dao = []\<rparr>)"
  by (simp add: load_dao_header_data_def host_def header_at_def)

lemma fetch_inputs_body_past_end:
  "length (cells e CKB_SOURCE_INPUT) \<le> i \<Longrightarrow> fetch_inputs_body e h i st = Break st"
  by (simp add: fetch_inputs_body_def ckb_checked_load_cell_by_field_def split: prod.splits)

lemma fetch_outputs_body_past_end:
  "length (cells e CKB_SOURCE_OUTPUT) \<le> i \<Longrightarrow> fetch_outputs_body e h a i st = Break st"
  by (simp add: fetch_outputs_body_def ckb_checked_load_cell_by_field_def)

text \<open>
  When the summing loop gets through the first \<open>k\<close> entries of a bucket, the loop over
  the whole bucket arrives at entry \<open>k\<close> with the values the shorter loop ends with.
\<close>

lemma align_loop_prefix:
  "align_loop e s t (take k infos) i c a = Inr (c', a') \<Longrightarrow> k \<le> length infos \<Longrightarrow> i \<le> k
     \<Longrightarrow> align_loop e s t infos i c a = align_loop e s t infos k c' a'"
proof (induction "k - i" arbitrary: i c a)
  case 0
  then have "i = k" by simp
  with "0.prems" show ?case by (simp add: align_loop.simps [of e s t "take k infos"])
next
  case (Suc n)
  then have lt: "i < k" by simp
  obtain r c1 where ad: "align_dao e i s t (TokenInfo.block_number (infos ! i))
      (ucast (TokenInfo.amount (infos ! i))) c = (r, c1)"
    by (cases "align_dao e i s t (TokenInfo.block_number (infos ! i))
      (ucast (TokenInfo.amount (infos ! i))) c") auto
  from Suc.prems lt ad have r: "r = CKB_SUCCESS"
    by (simp add: align_loop.simps [of e s t "take k infos" i] split: if_splits)
  from Suc.prems lt ad r
  have pre: "align_loop e s t (take k infos) (i + 1) c1 (a + c1) = Inr (c', a')"
    by (simp add: align_loop.simps [of e s t "take k infos" i])
  have "align_loop e s t infos (i + 1) c1 (a + c1) = align_loop e s t infos k c' a'"
    using Suc.hyps(1) [of "i + 1" c1 "a + c1"] Suc.hyps(2) pre Suc.prems lt by simp
  with lt Suc.prems ad r show ?case
    by (simp add: align_loop.simps [of e s t infos i])
qed

lemma align_loop_backward:
  assumes "k < length infos"
    and "dao_header_data_t.block_number t < TokenInfo.block_number (infos ! k)"
  shows "align_loop e s t infos k c a = Inl ERROR_ALIGN"
proof -
  from assms(2) have "dao_header_data_t.block_number t \<noteq> TokenInfo.block_number (infos ! k)"
    by auto
  with assms show ?thesis
    by (simp add: align_loop.simps [of e s t infos k] align_dao_def)
qed

section \<open>Alignment at equal heights\<close>

lemma equal_height_tx_inputs:
  "fetch_inputs equal_height_tx wckb_hash =
     Inr ([], [\<lparr>TokenInfo.block_number = 100, TokenInfo.amount = 1000\<rparr>])"
proof -
  have b0: "fetch_inputs_body equal_height_tx wckb_hash 0 ([], []) =
      Continue ([], [\<lparr>TokenInfo.block_number = 100, TokenInfo.amount = 1000\<rparr>])"
    by (simp add: fetch_inputs_body_def equal_height_tx_def cell_loads example_defs
          is_dao_withdraw1_cell_def byte_loads upt_rec)
  have b1: "\<And>st. fetch_inputs_body equal_height_tx wckb_hash (Suc 0) st = Break st"
    by (simp add: fetch_inputs_body_def equal_height_tx_def cell_loads host_def
          split: prod.splits)
  show ?thesis
    by (simp add: fetch_inputs_def fetch_inputs_loop.simps b0 b1)
qed

lemma equal_height_tx_outputs:
  "fetch_outputs equal_height_tx wckb_hash 100 =
     Inr \<lparr>deposited_dao = [], deposited_dao_cnt = 0, deposited_dao_cnt_ptr = 0,
          uninitialized_wckb = [],
          initialized_wckb = [\<lparr>TokenInfo.block_number = 100, TokenInfo.amount = 5000\<rparr>]\<rparr>"
proof -
  have b0: "fetch_outputs_body equal_height_tx wckb_hash 100 0
       \<lparr>deposited_dao = [], deposited_dao_cnt = 0, deposited_dao_cnt_ptr = 0,
        uninitialized_wckb = [], initialized_wckb = []\<rparr> =
      Continue \<lparr>deposited_dao = [], deposited_dao_cnt = 0, deposited_dao_cnt_ptr = 0,
        uninitialized_wckb = [],
        initialized_wckb = [\<lparr>TokenInfo.block_number = 100, TokenInfo.amount = 5000\<rparr>]\<rparr>"
    by (simp add: fetch_outputs_body_def equal_height_tx_def cell_loads example_defs
          is_dao_deposit_cell_def find_token_by_block_number_def byte_loads upt_rec)
  have b1: "\<And>st. fetch_outputs_body equal_height_tx wckb_hash 100 (Suc 0) st = Break st"
    by (simp add: fetch_outputs_body_def equal_height_tx_def cell_loads host_def)
  show ?thesis
    by (simp add: fetch_outputs_def fetch_outputs_loop.simps b0 b1)
qed

text \<open>
  C1 (the code departs from the claim). At an origin height equal to the target's block
  number \<open>align_dao\<close> returns \<open>CKB_SUCCESS\<close> and stores nothing: the aligned amount read
  by the caller is whatever \<open>calculated_capacity\<close> held before the call, for every
  amount \<open>a\<close> of the entry. The claim asks for \<open>a\<close> itself.
\<close>

theorem align_dao_equal_height_stores_nothing:
  "align_dao e i source tgt (dao_header_data_t.block_number tgt) a c = (CKB_SUCCESS, c)"
  by (simp add: align_dao_def)

text \<open>
  In the transaction \<open>equal_height_tx\<close> the input of 1000 and the output of 5000 both
  align to the stale 7, the totals are 7, 0 and 7, and the run is accepted.
\<close>

theorem equal_height_amount_not_kept:
  "align_dao equal_height_tx 0 CKB_SOURCE_INPUT (snd (header_at 100)) 100 1000 7 = (CKB_SUCCESS, 7)
   \<and> main_totals equal_height_tx =
       Inr (\<lparr>deposited_dao = [], deposited_dao_cnt = 0, deposited_dao_cnt_ptr = 0,
             uninitialized_wckb = [],
             initialized_wckb = [\<lparr>TokenInfo.block_number = 100, TokenInfo.amount = 5000\<rparr>]\<rparr>,
            7, 0, 7)
   \<and> main equal_height_tx = Exit CKB_SUCCESS"
proof -
  have hdr: "load_dao_header_data equal_height_tx 0 CKB_SOURCE_GROUP_INPUT =
      (CKB_SUCCESS, snd (header_at 100))"
    by (simp add: load_dao_header_data_def equal_height_tx_def host_def header_at_def)
  have sh: "ckb_load_script_hash equal_height_tx = (CKB_SUCCESS, wckb_hash)"
    by (simp add: ckb_load_script_hash_def equal_height_tx_def host_def)
  have cc: "stack_calculated_capacity equal_height_tx = 7"
    by (simp add: equal_height_tx_def host_def)
  have bn: "dao_header_data_t.block_number (snd (header_at 100)) = 100"
    by (simp add: header_at_def)
  have a: "\<And>i source a c.
      align_dao equal_height_tx i source (snd (header_at 100)) 100 a c = (CKB_SUCCESS, c)"
    using align_dao_equal_height_stores_nothing [of equal_height_tx _ _ "snd (header_at 100)"]
    by (simp add: bn)
  have t: "main_totals equal_height_tx =
       Inr (\<lparr>deposited_dao = [], deposited_dao_cnt = 0, deposited_dao_cnt_ptr = 0,
             uninitialized_wckb = [],
             initialized_wckb = [\<lparr>TokenInfo.block_number = 100, TokenInfo.amount = 5000\<rparr>]\<rparr>,
            7, 0, 7)"
    by (simp add: main_totals_def sh hdr cc length_wckb_hash bn a align_loop.simps
          equal_height_tx_inputs equal_height_tx_outputs)
  have m: "main equal_height_tx = Exit CKB_SUCCESS"
    by (simp add: main_def t equation1_def)
  from a t m show ?thesis by simp
qed

section \<open>Projection backward in time\<close>

text \<open>
  C7 as stated fails: the scans run before any entry is aligned, so another cell can
  end the run first. In \<open>preempted_tx\<close> the input bucket holds an entry at height 150
  above the target 100, and the run ends with \<open>ERROR_OUTPUT_ALIGN\<close> for the output at
  height 90.
\<close>

theorem backward_projection_preempted:
  "fetch_inputs preempted_tx wckb_hash =
     Inr ([], [\<lparr>TokenInfo.block_number = 150, TokenInfo.amount = 1000\<rparr>])
   \<and> load_dao_header_data preempted_tx 0 CKB_SOURCE_GROUP_INPUT =
       (CKB_SUCCESS, \<lparr>dao_header_data_t.block_number = 100, dao = []\<rparr>)
   \<and> (100 :: u64) < 150
   \<and> main preempted_tx = Exit ERROR_OUTPUT_ALIGN"
proof -
  have sh: "ckb_load_script_hash preempted_tx = (CKB_SUCCESS, wckb_hash)"
    by (simp add: preempted_tx_def host_script_hash)
  have hdr: "load_dao_header_data preempted_tx 0 CKB_SOURCE_GROUP_INPUT =
      (CKB_SUCCESS, \<lparr>dao_header_data_t.block_number = 100, dao = []\<rparr>)"
    by (simp add: preempted_tx_def host_group_header)
  have fin: "fetch_inputs preempted_tx wckb_hash =
      Inr ([], [\<lparr>TokenInfo.block_number = 150, TokenInfo.amount = 1000\<rparr>])"
    by (simp add: preempted_tx_def scan_eval)
  have fout: "fetch_outputs preempted_tx wckb_hash 100 = Inl (Exit ERROR_OUTPUT_ALIGN)"
    by (simp add: preempted_tx_def scan_eval)
  have "main preempted_tx = Exit ERROR_OUTPUT_ALIGN"
    by (simp add: main_def main_totals_def sh hdr length_wckb_hash fin fout)
  with fin hdr show ?thesis by simp
qed

text \<open>
  C7 as amended. An aligned entry is one the summing loops of \<open>main\<close> arrive at: the
  script hash and the target header load, both scans succeed, and the entries before it
  align. If such an entry of the withdrawn-deposit bucket, or (the withdrawn-deposit
  bucket summed) of the input wrapped-token bucket, has an origin height above the
  target's block number, the run ends with \<open>ERROR_ALIGN\<close>, whatever the entry's amount.
  (The entries of the initialized output bucket all carry the target's block number,
  \<open>initialized_entries_at_target\<close>, and are never above it.)
\<close>

theorem backward_projection_rejected:
  assumes "ckb_load_script_hash e = (CKB_SUCCESS, type_hash)"
    and "length type_hash = 32"
    and "load_dao_header_data e 0 CKB_SOURCE_GROUP_INPUT = (CKB_SUCCESS, tgt)"
    and "fetch_inputs e type_hash = Inr (withdraw_dao_infos, input_wckb_infos)"
    and "fetch_outputs e type_hash (dao_header_data_t.block_number tgt) = Inr outs"
    and "(k < length withdraw_dao_infos
          \<and> dao_header_data_t.block_number tgt < TokenInfo.block_number (withdraw_dao_infos ! k)
          \<and> align_loop e CKB_SOURCE_INPUT tgt (take k withdraw_dao_infos) 0
               (stack_calculated_capacity e) 0 = Inr (c, a))
       \<or> (align_loop e CKB_SOURCE_INPUT tgt withdraw_dao_infos 0
               (stack_calculated_capacity e) 0 = Inr (c1, a1)
          \<and> k < length input_wckb_infos
          \<and> dao_header_data_t.block_number tgt < TokenInfo.block_number (input_wckb_infos ! k)
          \<and> align_loop e CKB_SOURCE_INPUT tgt (take k input_wckb_infos) 0 c1 0 = Inr (c, a))"
  shows "main e = Exit ERROR_ALIGN"
proof -
  from assms(6) have "main_totals e = Inl (Exit ERROR_ALIGN)"
  proof
    assume w: "k < length withdraw_dao_infos
          \<and> dao_header_data_t.block_number tgt < TokenInfo.block_number (withdraw_dao_infos ! k)
          \<and> align_loop e CKB_SOURCE_INPUT tgt (take k withdraw_dao_infos) 0
               (stack_calculated_capacity e) 0 = Inr (c, a)"
    then have "align_loop e CKB_SOURCE_INPUT tgt withdraw_dao_infos 0
        (stack_calculated_capacity e) 0 = Inl ERROR_ALIGN"
      using align_loop_prefix [of e CKB_SOURCE_INPUT tgt k withdraw_dao_infos 0
          "stack_calculated_capacity e" 0 c a]
        align_loop_backward [of k withdraw_dao_infos tgt e CKB_SOURCE_INPUT c a]
      by simp
    with assms(1-5) show ?thesis by (simp add: main_totals_def)
  next
    assume i: "align_loop e CKB_SOURCE_INPUT tgt withdraw_dao_infos 0
               (stack_calculated_capacity e) 0 = Inr (c1, a1)
          \<and> k < length input_wckb_infos
          \<and> dao_header_data_t.block_number tgt < TokenInfo.block_number (input_wckb_infos ! k)
          \<and> align_loop e CKB_SOURCE_INPUT tgt (take k input_wckb_infos) 0 c1 0 = Inr (c, a)"
    then have "align_loop e CKB_SOURCE_INPUT tgt input_wckb_infos 0 c1 0 = Inl ERROR_ALIGN"
      using align_loop_prefix [of e CKB_SOURCE_INPUT tgt k input_wckb_infos 0 c1 0 c a]
        align_loop_backward [of k input_wckb_infos tgt e CKB_SOURCE_INPUT c a]
      by simp
    with i assms(1-5) show ?thesis by (simp add: main_totals_def)
  qed
  then show ?thesis by (simp add: main_def)
qed

text \<open>
  In \<open>backward_tx\<close> the withdrawal of 500 aligns, then the input of 1000 reads height
  150 against the target 100.
\<close>

theorem backward_projection_rejected_witness:
  "fetch_inputs backward_tx wckb_hash =
     Inr ([\<lparr>TokenInfo.block_number = 90, TokenInfo.amount = 500\<rparr>],
          [\<lparr>TokenInfo.block_number = 150, TokenInfo.amount = 1000\<rparr>])
   \<and> main backward_tx = Exit ERROR_ALIGN"
proof -
  let ?tgt = "\<lparr>dao_header_data_t.block_number = 100, dao = []\<rparr>"
  have sh: "ckb_load_script_hash backward_tx = (CKB_SUCCESS, wckb_hash)"
    by (simp add: backward_tx_def host_script_hash)
  have hdr: "load_dao_header_data backward_tx 0 CKB_SOURCE_GROUP_INPUT = (CKB_SUCCESS, ?tgt)"
    by (simp add: backward_tx_def host_group_header)
  have fin: "fetch_inputs backward_tx wckb_hash =
      Inr ([\<lparr>TokenInfo.block_number = 90, TokenInfo.amount = 500\<rparr>],
           [\<lparr>TokenInfo.block_number = 150, TokenInfo.amount = 1000\<rparr>])"
    by (simp add: backward_tx_def scan_eval)
  have fout: "fetch_outputs backward_tx wckb_hash (dao_header_data_t.block_number ?tgt) =
      Inr (no_outputs\<lparr>initialized_wckb :=
            [\<lparr>TokenInfo.block_number = 100, TokenInfo.amount = 1000\<rparr>]\<rparr>)"
    by (simp add: backward_tx_def scan_eval)
  have cc: "stack_calculated_capacity backward_tx = 0"
    by (simp add: backward_tx_def host_def)
  have wd: "align_loop backward_tx CKB_SOURCE_INPUT ?tgt
      [\<lparr>TokenInfo.block_number = 90, TokenInfo.amount = 500\<rparr>] 0 0 0 = Inr (500, 500)"
    by (simp add: align_loop.simps align_dao_def backward_tx_def cell_loads example_defs
          byte_loads upt_rec)
  have "main backward_tx = Exit ERROR_ALIGN"
    by (rule backward_projection_rejected
          [where k = 0 and ?c1.0 = 500 and ?a1.0 = 500 and c = 500 and a = 0,
            OF sh length_wckb_hash hdr fin fout])
       (simp add: cc wd align_loop.simps [of _ _ _ "[]"])
  with fin show ?thesis by simp
qed

section \<open>Outputs off the target height\<close>




section \<open>Equation 1 on 64-bit totals\<close>

lemma equation2_not_output_error:
  "equation2 d n us \<noteq> ERROR_INCORRECT_OUTPUT_WCKB"
  by (induction us) (auto split: option.splits)




lemma sum_wrap_tx_accepted:
  "fetch_inputs sum_wrap_tx wckb_hash =
     Inr ([\<lparr>TokenInfo.block_number = 90, TokenInfo.amount = 9223372036854775808\<rparr>,
           \<lparr>TokenInfo.block_number = 90, TokenInfo.amount = 9223372036854775808\<rparr>], [])
   \<and> main_totals sum_wrap_tx = Inr (no_outputs, 0, 0, 0)
   \<and> main sum_wrap_tx = Exit CKB_SUCCESS"
proof -
  have sh: "ckb_load_script_hash sum_wrap_tx = (CKB_SUCCESS, wckb_hash)"
    by (simp add: sum_wrap_tx_def host_script_hash)
  have hdr: "load_dao_header_data sum_wrap_tx 0 CKB_SOURCE_GROUP_INPUT =
      (CKB_SUCCESS, \<lparr>dao_header_data_t.block_number = 100, dao = []\<rparr>)"
    by (simp add: sum_wrap_tx_def host_group_header)
  have fin: "fetch_inputs sum_wrap_tx wckb_hash =
     Inr ([\<lparr>TokenInfo.block_number = 90, TokenInfo.amount = 9223372036854775808\<rparr>,
           \<lparr>TokenInfo.block_number = 90, TokenInfo.amount = 9223372036854775808\<rparr>], [])"
    by (simp add: sum_wrap_tx_def scan_eval)
  have fout: "fetch_outputs sum_wrap_tx wckb_hash 100 = Inr no_outputs"
    by (simp add: sum_wrap_tx_def scan_eval)
  have t: "main_totals sum_wrap_tx = Inr (no_outputs, 0, 0, 0)"
    apply (simp add: main_totals_def sh hdr length_wckb_hash fin fout)
    apply (simp add: align_loop.simps align_dao_def sum_wrap_tx_def cell_loads example_defs
          byte_loads upt_rec no_outputs_def)
    done
  then have "main sum_wrap_tx = Exit CKB_SUCCESS"
    by (simp add: main_def equation1_def no_outputs_def)
  with fin t show ?thesis by simp
qed



section \<open>The deposit bucket and equation 2\<close>

lemma fetch_outputs_loop_invariant:
  assumes "fetch_outputs_loop e h a i st = Inr st'"
    and "P st"
    and "\<And>j s s'. P s \<Longrightarrow> fetch_outputs_body e h a j s = Continue s' \<Longrightarrow> P s'"
    and "\<And>j s s'. P s \<Longrightarrow> fetch_outputs_body e h a j s = Break s' \<Longrightarrow> P s'"
  shows "P st'"
  using assms
proof (induction e h a i st rule: fetch_outputs_loop.induct)
  case (1 e h a i st)
  note step = "1.prems"(3) and brk = "1.prems"(4)
  show ?case
  proof (cases "fetch_outputs_body e h a i st")
    case (Continue s)
    with "1.prems"(1) have "fetch_outputs_loop e h a (i + 1) s = Inr st'"
      by (simp add: fetch_outputs_loop.simps [of e h a i st])
    moreover have "P s" using step [OF "1.prems"(2) Continue] .
    ultimately show ?thesis using "1.IH" [OF Continue] step brk by blast
  next
    case (Break s)
    with "1.prems"(1) have "s = st'"
      by (simp add: fetch_outputs_loop.simps [of e h a i st])
    then show ?thesis using brk [OF "1.prems"(2) Break] by simp
  next
    case (Return r)
    with "1.prems"(1) show ?thesis
      by (simp add: fetch_outputs_loop.simps [of e h a i st])
  qed
qed

lemma fetch_outputs_body_cnt:
  "fetch_outputs_body e h a j s = Continue s' \<or> fetch_outputs_body e h a j s = Break s'
     \<Longrightarrow> deposited_dao_cnt s' = deposited_dao_cnt s"
  unfolding fetch_outputs_body_def
  by (auto simp: Let_def split: prod.splits if_splits option.splits)

lemma fetch_outputs_cnt_zero:
  assumes "fetch_outputs e h a = Inr st"
  shows "deposited_dao_cnt st = 0"
  using assms unfolding fetch_outputs_def
  by (rule fetch_outputs_loop_invariant [where P = "\<lambda>s. deposited_dao_cnt s = 0"])
     (use fetch_outputs_body_cnt in \<open>simp_all, metis+\<close>)

lemma main_totals_outputs:
  assumes "main_totals e = Inr (outs, ti, tw, t_out)"
  shows "\<exists>h a. fetch_outputs e h a = Inr outs"
  using assms unfolding main_totals_def
  by (auto split: prod.splits if_splits sum.splits)

lemma scenario_B_totals:
  "main_totals scenario_B_tx =
     Inr (\<lparr>deposited_dao = [\<lparr>SwapInfo.lock_hash = lock_L, SwapInfo.amount = 500\<rparr>],
           deposited_dao_cnt = 0, deposited_dao_cnt_ptr = 1,
           uninitialized_wckb = [\<lparr>SwapInfo.lock_hash = lock_L, SwapInfo.amount = 500\<rparr>],
           initialized_wckb = [\<lparr>TokenInfo.block_number = 100, TokenInfo.amount = 1000\<rparr>]\<rparr>,
          7, 0, 7)"
proof -
  have sh: "ckb_load_script_hash scenario_B_tx = (CKB_SUCCESS, wckb_hash)"
    by (simp add: scenario_B_tx_def host_script_hash)
  have hdr: "load_dao_header_data scenario_B_tx 0 CKB_SOURCE_GROUP_INPUT =
      (CKB_SUCCESS, \<lparr>dao_header_data_t.block_number = 100, dao = []\<rparr>)"
    by (simp add: scenario_B_tx_def host_group_header)
  have fin: "fetch_inputs scenario_B_tx wckb_hash =
      Inr ([], [\<lparr>TokenInfo.block_number = 100, TokenInfo.amount = 1000\<rparr>])"
    by (simp add: scenario_B_tx_def scan_eval)
  have fout: "fetch_outputs scenario_B_tx wckb_hash 100 =
      Inr \<lparr>deposited_dao = [\<lparr>SwapInfo.lock_hash = lock_L, SwapInfo.amount = 500\<rparr>],
           deposited_dao_cnt = 0, deposited_dao_cnt_ptr = 1,
           uninitialized_wckb = [\<lparr>SwapInfo.lock_hash = lock_L, SwapInfo.amount = 500\<rparr>],
           initialized_wckb = [\<lparr>TokenInfo.block_number = 100, TokenInfo.amount = 1000\<rparr>]\<rparr>"
    by (simp add: scenario_B_tx_def scan_eval)
  have cc: "stack_calculated_capacity scenario_B_tx = 7"
    by (simp add: scenario_B_tx_def host_def)
  show ?thesis
    by (simp add: main_totals_def sh hdr length_wckb_hash fin fout cc align_loop.simps
          align_dao_def)
qed

text \<open>
  C3 (the code departs from the claim). \<open>fetch_outputs\<close> never advances the caller's
  deposit counter, so \<open>main\<close> searches an empty deposit bucket: whenever the run reaches
  the equations with an uninitialized output recorded, it is rejected, with equation 1's
  error or with \<open>ERROR_INCORRECT_UNINIT_OUTPUT_WCKB\<close>. It is never accepted.
\<close>

theorem uninitialized_output_never_accepted:
  assumes "main_totals e = Inr (outs, ti, tw, t_out)"
    and "uninitialized_wckb outs \<noteq> []"
  shows "main e = Exit ERROR_INCORRECT_OUTPUT_WCKB
       \<or> main e = Exit ERROR_INCORRECT_UNINIT_OUTPUT_WCKB"
proof -
  from main_totals_outputs [OF assms(1)] fetch_outputs_cnt_zero
  have z: "deposited_dao_cnt outs = 0" by blast
  from assms(2) obtain u us where u: "uninitialized_wckb outs = u # us"
    by (cases "uninitialized_wckb outs") auto
  have "equation2 (deposited_dao outs) 0 (u # us) = ERROR_INCORRECT_UNINIT_OUTPUT_WCKB"
    by (simp add: find_swap_by_lock_hash_def)
  with assms(1) z u show ?thesis by (simp add: main_def)
qed

text \<open>
  Scenario B with equation 1 balanced (7 - 0 = 7): the deposit of 500 under \<open>lock_L\<close> is
  stored in slot 0, the counter stays 0, and the uninitialized output of 500 under
  \<open>lock_L\<close> finds no match.
\<close>

theorem scenario_B_rejected:
  "main_totals scenario_B_tx =
     Inr (\<lparr>deposited_dao = [\<lparr>SwapInfo.lock_hash = lock_L, SwapInfo.amount = 500\<rparr>],
           deposited_dao_cnt = 0, deposited_dao_cnt_ptr = 1,
           uninitialized_wckb = [\<lparr>SwapInfo.lock_hash = lock_L, SwapInfo.amount = 500\<rparr>],
           initialized_wckb = [\<lparr>TokenInfo.block_number = 100, TokenInfo.amount = 1000\<rparr>]\<rparr>,
          7, 0, 7)
   \<and> equation1 7 0 7
   \<and> main scenario_B_tx = Exit ERROR_INCORRECT_UNINIT_OUTPUT_WCKB"
proof -
  have e1: "equation1 7 0 7" by (simp add: equation1_def)
  have "main scenario_B_tx \<noteq> Exit ERROR_INCORRECT_OUTPUT_WCKB"
    by (simp add: main_def scenario_B_totals e1 equation2_not_output_error
          del: equation2.simps)
  with uninitialized_output_never_accepted [OF scenario_B_totals]
  have "main scenario_B_tx = Exit ERROR_INCORRECT_UNINIT_OUTPUT_WCKB" by simp
  with scenario_B_totals e1 show ?thesis by simp
qed

section \<open>The payload of a wrapped-token input\<close>

text \<open>
  C5 (the code departs from the claim). At an input whose type hash is the script's
  own, a 24-byte payload ends the scan with \<open>ERROR_ENCODING\<close>; a 16-byte payload is
  recorded (below the capacity) with the amount of its 16 bytes and with the height read
  from the 8 bytes of \<open>buf\<close> after them, which the load has not written: whatever the
  stack held, not 0.
\<close>

theorem wckb_input_payload_length:
  assumes "i < length (cells e CKB_SOURCE_INPUT)"
    and "cell_type_hash (cells e CKB_SOURCE_INPUT ! i) = (CKB_SUCCESS, th)"
    and "length th = 32"
    and "memcmp_eq th type_hash 32"
    and "cell_data (cells e CKB_SOURCE_INPUT ! i) = (CKB_SUCCESS, d)"
  shows "(length d = 24 \<longrightarrow>
            fetch_inputs_loop e type_hash i (wd, inp) = Inl (Exit ERROR_ENCODING))
       \<and> (length d = 16 \<and> length inp < 256 \<longrightarrow>
            fetch_inputs_body e type_hash i (wd, inp) =
              Continue (wd, inp @
                [\<lparr>TokenInfo.block_number = load_u64 (drop 16 (stack_buf e i)),
                  TokenInfo.amount = load_u128 d\<rparr>]))"
proof (intro conjI impI)
  assume "length d = 24"
  with assms have "fetch_inputs_body e type_hash i (wd, inp) = Return (Exit ERROR_ENCODING)"
    by (simp add: fetch_inputs_body_def ckb_checked_load_cell_by_field_def
          ckb_load_cell_data_def is_dao_withdraw1_cell_def)
  then show "fetch_inputs_loop e type_hash i (wd, inp) = Inl (Exit ERROR_ENCODING)"
    by (simp add: fetch_inputs_loop.simps)
next
  assume "length d = 16 \<and> length inp < 256"
  with assms show "fetch_inputs_body e type_hash i (wd, inp) =
      Continue (wd, inp @
        [\<lparr>TokenInfo.block_number = load_u64 (drop 16 (stack_buf e i)),
          TokenInfo.amount = load_u128 d\<rparr>])"
    by (simp add: fetch_inputs_body_def ckb_checked_load_cell_by_field_def
          ckb_load_cell_data_def is_dao_withdraw1_cell_def load_u128_def)
qed

text \<open>
  \<open>long_payload_tx\<close> has one input of 1000 at height 100 in the 24-byte form; the
  16-byte input of \<open>equal_height_tx\<close> is recorded with the stale height 100.
\<close>

theorem wckb_input_payload_length_witness:
  "fetch_inputs long_payload_tx wckb_hash = Inl (Exit ERROR_ENCODING)
   \<and> main long_payload_tx = Exit ERROR_ENCODING
   \<and> fetch_inputs_body equal_height_tx wckb_hash 0 ([], []) =
       Continue ([], [\<lparr>TokenInfo.block_number = 100, TokenInfo.amount = 1000\<rparr>])"
proof -
  have fin: "fetch_inputs long_payload_tx wckb_hash = Inl (Exit ERROR_ENCODING)"
    unfolding fetch_inputs_def
    using wckb_input_payload_length
      [where e = long_payload_tx and i = 0 and th = wckb_hash and type_hash = wckb_hash
         and d = "le_bytes 16 1000 @ le_bytes 8 100" and wd = "[]" and inp = "[]"]
    by (simp add: long_payload_tx_def host_def typed_cell_def length_wckb_hash memcmp_eq_def
          length_le_bytes)
  have sh: "ckb_load_script_hash long_payload_tx = (CKB_SUCCESS, wckb_hash)"
    by (simp add: long_payload_tx_def host_script_hash)
  have hdr: "load_dao_header_data long_payload_tx 0 CKB_SOURCE_GROUP_INPUT =
      (CKB_SUCCESS, \<lparr>dao_header_data_t.block_number = 100, dao = []\<rparr>)"
    by (simp add: long_payload_tx_def host_group_header)
  have m: "main long_payload_tx = Exit ERROR_ENCODING"
    by (simp add: main_def main_totals_def sh hdr length_wckb_hash fin)
  have h: "load_u64 (le_bytes 8 100) = 100"
    by (simp add: le_bytes_def byte_loads upt_rec)
  have v: "load_u128 (le_bytes 16 1000) = 1000"
    by (simp add: le_bytes_def byte_loads upt_rec)
  have b: "fetch_inputs_body equal_height_tx wckb_hash 0 ([], []) =
      Continue ([], [\<lparr>TokenInfo.block_number = 100, TokenInfo.amount = 1000\<rparr>])"
    using wckb_input_payload_length
      [where e = equal_height_tx and i = 0 and th = wckb_hash and type_hash = wckb_hash
         and d = "le_bytes 16 1000" and wd = "[]" and inp = "[]"]
    by (simp add: equal_height_tx_def host_def typed_cell_def length_wckb_hash memcmp_eq_def
          length_le_bytes h v)
  from fin m b show ?thesis by simp
qed

section \<open>Which cell the alignment reads\<close>

text \<open>
  C6 (the code departs from the claim). Projecting entry \<open>k\<close> of a bucket forward, the
  summing loop hands the accrual function the occupied capacity and the header of the
  cell at position \<open>k\<close> of the source: the position in the bucket, not the position of
  the cell the entry was read from.
\<close>

theorem align_loop_reads_cell_at_bucket_index:
  assumes "k < length infos"
    and "TokenInfo.block_number (infos ! k) < dao_header_data_t.block_number tgt"
    and "ckb_checked_load_cell_by_field e k source CKB_CELL_FIELD_OCCUPIED_CAPACITY
           = (CKB_SUCCESS, occupied)"
    and "length occupied = 8"
    and "load_dao_header_data e k source = (CKB_SUCCESS, deposit_data)"
  shows "align_loop e source tgt infos k c a =
           (case calculate_dao_input_capacity e (load_u64 occupied) deposit_data tgt
                   (if TokenInfo.block_number (infos ! k) = 0
                      then dao_header_data_t.block_number deposit_data
                    else TokenInfo.block_number (infos ! k))
                   (ucast (TokenInfo.amount (infos ! k))) c of
              (ret, c') \<Rightarrow>
                if ret \<noteq> CKB_SUCCESS then Inl ret
                else align_loop e source tgt infos (k + 1) c' (a + c'))"
proof -
  from assms(2)
  have ne: "dao_header_data_t.block_number tgt \<noteq> TokenInfo.block_number (infos ! k)"
    and nl: "\<not> dao_header_data_t.block_number tgt < TokenInfo.block_number (infos ! k)"
    by auto
  show ?thesis
    using assms(1,3,4,5) ne nl
    by (simp add: align_loop.simps [of e source tgt infos k] align_dao_def)
qed

text \<open>
  In \<open>shifted_tx\<close> the only bucket entry comes from input 1 (occupied capacity 100, which
  would give 100 + 2 * 900 = 1900); the loop reads input 0 (occupied capacity 61) and
  totals 61 + 2 * 939 = 1939.
\<close>

theorem shifted_tx_reads_wrong_cell:
  "cell_occupied_capacity (cells shifted_tx CKB_SOURCE_INPUT ! 1) = (CKB_SUCCESS, le_bytes 8 100)
   \<and> load_u64 (le_bytes 8 100) + 2 * (1000 - load_u64 (le_bytes 8 100)) = 1900
   \<and> fetch_inputs shifted_tx wckb_hash =
       Inr ([], [\<lparr>TokenInfo.block_number = 50, TokenInfo.amount = 1000\<rparr>])
   \<and> main_totals shifted_tx = Inr (no_outputs, 1939, 0, 0)"
proof -
  let ?tgt = "\<lparr>dao_header_data_t.block_number = 100, dao = []\<rparr>"
  let ?dep = "\<lparr>dao_header_data_t.block_number = 50, dao = []\<rparr>"
  let ?infos = "[\<lparr>TokenInfo.block_number = 50, TokenInfo.amount = 1000\<rparr>]"
  have sh: "ckb_load_script_hash shifted_tx = (CKB_SUCCESS, wckb_hash)"
    by (simp add: shifted_tx_def host_script_hash)
  have hdr: "load_dao_header_data shifted_tx 0 CKB_SOURCE_GROUP_INPUT = (CKB_SUCCESS, ?tgt)"
    by (simp add: shifted_tx_def host_group_header)
  have fin: "fetch_inputs shifted_tx wckb_hash = Inr ([], ?infos)"
    by (simp add: shifted_tx_def scan_eval)
  have fout: "fetch_outputs shifted_tx wckb_hash 100 = Inr no_outputs"
    by (simp add: shifted_tx_def scan_eval)
  have occ: "ckb_checked_load_cell_by_field shifted_tx 0 CKB_SOURCE_INPUT
      CKB_CELL_FIELD_OCCUPIED_CAPACITY = (CKB_SUCCESS, le_bytes 8 61)"
    by (simp add: shifted_tx_def host_def ckb_checked_load_cell_by_field_def untyped_cell_def)
  have dep: "load_dao_header_data shifted_tx 0 CKB_SOURCE_INPUT = (CKB_SUCCESS, ?dep)"
    by (simp add: shifted_tx_def host_def load_dao_header_data_def header_at_def)
  have calc: "\<And>o' d t b cap old.
      calculate_dao_input_capacity shifted_tx o' d t b cap old = (CKB_SUCCESS, o' + 2 * (cap - o'))"
    by (simp add: shifted_tx_def host_def calculate_dao_input_capacity_def)
  have o61: "load_u64 (le_bytes 8 61) = 61"
    by (simp add: le_bytes_def byte_loads upt_rec)
  have o100: "load_u64 (le_bytes 8 100) = 100"
    by (simp add: le_bytes_def byte_loads upt_rec)
  have "align_loop shifted_tx CKB_SOURCE_INPUT ?tgt ?infos 0 0 0 = Inr (1939, 1939)"
    using align_loop_reads_cell_at_bucket_index
      [of 0 ?infos ?tgt shifted_tx CKB_SOURCE_INPUT "le_bytes 8 61" ?dep 0 0, OF _ _ occ _ dep]
    by (simp add: length_le_bytes calc o61 align_loop.simps [of _ _ _ _ "Suc 0"])
  then have t: "main_totals shifted_tx = Inr (no_outputs, 1939, 0, 0)"
    by (simp add: main_totals_def sh hdr length_wckb_hash fin fout
          align_loop.simps [of _ _ _ "[]"] no_outputs_def shifted_tx_def [THEN arg_cong, of stack_calculated_capacity] host_def)
  have c1: "cell_occupied_capacity (cells shifted_tx CKB_SOURCE_INPUT ! 1)
      = (CKB_SUCCESS, le_bytes 8 100)"
    by (simp add: shifted_tx_def host_def typed_cell_def)
  from c1 o100 fin t show ?thesis by simp
qed

section \<open>The capacity of the input buckets\<close>

lemma fetch_inputs_body_wckb16:
  assumes "i < length (cells e CKB_SOURCE_INPUT)"
    and "cell_type_hash (cells e CKB_SOURCE_INPUT ! i) = (CKB_SUCCESS, th)"
    and "length th = 32"
    and "memcmp_eq th type_hash 32"
    and "cell_data (cells e CKB_SOURCE_INPUT ! i) = (CKB_SUCCESS, d)"
    and "length d = 16"
  shows "fetch_inputs_body e type_hash i (wd, inp) =
           (if 256 \<le> length inp then Return Undefined_behaviour
            else Continue (wd, inp @
                [\<lparr>TokenInfo.block_number = load_u64 (drop 16 (stack_buf e i)),
                  TokenInfo.amount = load_u128 d\<rparr>]))"
  using assms
  by (simp add: fetch_inputs_body_def ckb_checked_load_cell_by_field_def
        ckb_load_cell_data_def is_dao_withdraw1_cell_def load_u128_def)

lemma many_inputs_fill:
  "j \<le> 256 \<Longrightarrow>
     fetch_inputs_loop many_inputs_tx wckb_hash 0 ([], []) =
     fetch_inputs_loop many_inputs_tx wckb_hash j
       ([], replicate j \<lparr>TokenInfo.block_number = 100, TokenInfo.amount = 5\<rparr>)"
proof (induction j)
  case 0
  show ?case by simp
next
  case (Suc j)
  have h: "load_u64 (drop 16 (stack_buf many_inputs_tx j)) = 100"
    by (simp add: many_inputs_tx_def host_def le_bytes_def byte_loads upt_rec)
  have v: "load_u128 (le_bytes 16 5) = 5"
    by (simp add: le_bytes_def byte_loads upt_rec)
  have "fetch_inputs_body many_inputs_tx wckb_hash j
       ([], replicate j \<lparr>TokenInfo.block_number = 100, TokenInfo.amount = 5\<rparr>) =
     Continue ([], replicate (Suc j) \<lparr>TokenInfo.block_number = 100, TokenInfo.amount = 5\<rparr>)"
    using Suc.prems h
    by (subst fetch_inputs_body_wckb16 [where th = wckb_hash and d = "le_bytes 16 5"])
       (simp_all add: many_inputs_tx_def host_def typed_cell_def length_wckb_hash memcmp_eq_def
          length_le_bytes v replicate_append_same)
  then have "fetch_inputs_loop many_inputs_tx wckb_hash j
       ([], replicate j \<lparr>TokenInfo.block_number = 100, TokenInfo.amount = 5\<rparr>) =
     fetch_inputs_loop many_inputs_tx wckb_hash (Suc j)
       ([], replicate (Suc j) \<lparr>TokenInfo.block_number = 100, TokenInfo.amount = 5\<rparr>)"
    by (simp add: fetch_inputs_loop.simps [of _ _ j])
  with Suc show ?case by simp
qed

text \<open>
  C4 (the code departs from the claim). \<open>fetch_inputs\<close> appends without looking at the
  counter. With 256 entries in the input wrapped-token bucket, a further wrapped-token
  input is stored past the end of the array: the scan does not return
  \<open>ERROR_TOO_MANY_SWAPS\<close>, the C program has undefined behaviour.
\<close>

theorem input_bucket_overflow_unchecked:
  assumes "i < length (cells e CKB_SOURCE_INPUT)"
    and "cell_type_hash (cells e CKB_SOURCE_INPUT ! i) = (CKB_SUCCESS, th)"
    and "length th = 32"
    and "memcmp_eq th type_hash 32"
    and "cell_data (cells e CKB_SOURCE_INPUT ! i) = (CKB_SUCCESS, d)"
    and "length d = 16"
    and "length inp = 256"
  shows "fetch_inputs_loop e type_hash i (wd, inp) = Inl Undefined_behaviour"
  using assms
  by (simp add: fetch_inputs_loop.simps [of e type_hash i] fetch_inputs_body_wckb16)

text \<open>\<open>many_inputs_tx\<close> has 257 wrapped-token inputs.\<close>

theorem input_bucket_overflow_unchecked_witness:
  "length (cells many_inputs_tx CKB_SOURCE_INPUT) = 257
   \<and> fetch_inputs many_inputs_tx wckb_hash = Inl Undefined_behaviour
   \<and> main many_inputs_tx = Undefined_behaviour"
proof -
  have n: "length (cells many_inputs_tx CKB_SOURCE_INPUT) = 257"
    by (simp add: many_inputs_tx_def host_def)
  have "fetch_inputs_loop many_inputs_tx wckb_hash 256
       ([], replicate 256 \<lparr>TokenInfo.block_number = 100, TokenInfo.amount = 5\<rparr>)
     = Inl Undefined_behaviour"
    by (rule input_bucket_overflow_unchecked [where th = wckb_hash and d = "le_bytes 16 5"])
       (simp_all add: many_inputs_tx_def host_def typed_cell_def length_wckb_hash memcmp_eq_def
          length_le_bytes)
  with many_inputs_fill [of 256]
  have fin: "fetch_inputs many_inputs_tx wckb_hash = Inl Undefined_behaviour"
    by (simp add: fetch_inputs_def)
  have sh: "ckb_load_script_hash many_inputs_tx = (CKB_SUCCESS, wckb_hash)"
    by (simp add: many_inputs_tx_def host_script_hash)
  have hdr: "load_dao_header_data many_inputs_tx 0 CKB_SOURCE_GROUP_INPUT =
      (CKB_SUCCESS, \<lparr>dao_header_data_t.block_number = 100, dao = []\<rparr>)"
    by (simp add: many_inputs_tx_def host_group_header)
  have "main many_inputs_tx = Undefined_behaviour"
    by (simp add: main_def main_totals_def sh hdr length_wckb_hash fin)
  with n fin show ?thesis by simp
qed

section \<open>The initialized output bucket\<close>



lemma fetch_outputs_body_one_height:
  assumes "one_height a s"
    and "fetch_outputs_body e h a j s = Continue s' \<or> fetch_outputs_body e h a j s = Break s'"
  shows "one_height a s'"
  using assms unfolding fetch_outputs_body_def one_height_def
  by (auto simp: Let_def find_token_by_block_number_def
        split: prod.splits if_splits option.splits)

text \<open>
  C10. After a successful output scan the initialized wrapped-token bucket has at most
  one entry.
\<close>

theorem initialized_bucket_at_most_one:
  assumes "fetch_outputs e h a = Inr st"
  shows "length (initialized_wckb st) \<le> 1"
proof -
  have "one_height a st"
    using assms unfolding fetch_outputs_def
    by (rule fetch_outputs_loop_invariant [where P = "one_height a"])
       (use fetch_outputs_body_one_height in \<open>simp add: one_height_def, blast+\<close>)
  then show ?thesis by (auto simp: one_height_def)
qed

text \<open>The outputs of 600 and 400 of \<open>merged_tx\<close> end as one entry of 1000.\<close>

theorem initialized_bucket_at_most_one_witness:
  "fetch_outputs merged_tx wckb_hash 100 =
     Inr (no_outputs\<lparr>initialized_wckb :=
            [\<lparr>TokenInfo.block_number = 100, TokenInfo.amount = 1000\<rparr>]\<rparr>)
   \<and> length (initialized_wckb (no_outputs\<lparr>initialized_wckb :=
            [\<lparr>TokenInfo.block_number = 100, TokenInfo.amount = 1000\<rparr>]\<rparr>)) \<le> 1"
proof -
  have f: "fetch_outputs merged_tx wckb_hash 100 =
     Inr (no_outputs\<lparr>initialized_wckb :=
            [\<lparr>TokenInfo.block_number = 100, TokenInfo.amount = 1000\<rparr>]\<rparr>)"
    by (simp add: merged_tx_def scan_eval)
  from f initialized_bucket_at_most_one [OF f] show ?thesis by simp
qed

lemma initialized_entries_at_target:
  assumes "fetch_outputs e h a = Inr st"
  shows "\<forall>t \<in> set (initialized_wckb st). TokenInfo.block_number t = a"
proof -
  have "one_height a st"
    using assms unfolding fetch_outputs_def
    by (rule fetch_outputs_loop_invariant [where P = "one_height a"])
       (use fetch_outputs_body_one_height in \<open>simp add: one_height_def, blast+\<close>)
  then show ?thesis by (auto simp: one_height_def)
qed

section \<open>The capacity of the uninitialized bucket\<close>
















end
